theory Spec2Isabelle
  imports Main "HOL-Library.Word"
begin

section \<open>MacBase.h: error codes\<close>

text \<open>
  The anonymous \<^verbatim>\<open>enum\<close> of class \<^verbatim>\<open>MacBase\<close>. The enumerators are the constructors
  of a datatype; \<open>enumerators\<close> lists them in the order of declaration. The first
  enumerator is given the value 1 and each following one has the value of its
  predecessor plus one: \<open>enum_from\<close> numbers a declaration list that way and
  \<open>error_value\<close> looks an enumerator up in the numbered list.
\<close>

datatype ErrorCode =
    E_PHY_WRITE_TIMEOUT
  | E_PHY_READ_TIMEOUT
  | E_PHY_WAIT_TIMEOUT
  | E_CRC
  | E_TOO_BIG
  | E_TRANSMIT_ERROR
  | E_RECEIVE
  | E_WATCHDOG
  | E_LATE_COLLISION
  | E_IP_HEADER_CHECKSUM
  | E_OVERFLOW
  | E_TRUNCATED
  | E_PAYLOAD
  | E_HEADER
  | E_UNSUPPORTED_802_3_FRAME_FORMAT
  | E_BUSY
  | E_TRANSMIT_PROCESS_STOPPED
  | E_TRANSMIT_JABBER_TIMEOUT
  | E_RECEIVE_OVERFLOW
  | E_TRANSMIT_UNDERFLOW
  | E_RECEIVE_BUFFER_UNAVAILABLE
  | E_RECEIVE_PROCESS_STOPPED
  | E_RECEIVE_WATCHDOG_TIMEOUT
  | E_FATAL_BUS_ERROR
  | E_NO_FLASH_DATA
  | E_UNSPECIFIED

definition enumerators :: "ErrorCode list" where
  "enumerators =
    [E_PHY_WRITE_TIMEOUT, E_PHY_READ_TIMEOUT, E_PHY_WAIT_TIMEOUT, E_CRC, E_TOO_BIG,
     E_TRANSMIT_ERROR, E_RECEIVE, E_WATCHDOG, E_LATE_COLLISION, E_IP_HEADER_CHECKSUM,
     E_OVERFLOW, E_TRUNCATED, E_PAYLOAD, E_HEADER, E_UNSUPPORTED_802_3_FRAME_FORMAT,
     E_BUSY, E_TRANSMIT_PROCESS_STOPPED, E_TRANSMIT_JABBER_TIMEOUT, E_RECEIVE_OVERFLOW,
     E_TRANSMIT_UNDERFLOW, E_RECEIVE_BUFFER_UNAVAILABLE, E_RECEIVE_PROCESS_STOPPED,
     E_RECEIVE_WATCHDOG_TIMEOUT, E_FATAL_BUS_ERROR, E_NO_FLASH_DATA, E_UNSPECIFIED]"

fun enum_from :: "int \<Rightarrow> 'a list \<Rightarrow> ('a \<times> int) list" where
  "enum_from n [] = []"
| "enum_from n (e # es) = (e, n) # enum_from (n + 1) es"

definition error_value :: "ErrorCode \<Rightarrow> int" where
  "error_value e = (case map_of (enum_from 1 enumerators) e of Some v \<Rightarrow> v | None \<Rightarrow> 0)"

text \<open>
  The kinds of failure as the specification lists them (section 7), in its order, and
  the enumerator that tags each kind.
\<close>

datatype ErrorKind =
    PhyWriteTimeout
  | PhyReadTimeout
  | PhyWaitTimeout
  | CrcFailure
  | FrameTooBig
  | TransmitFailure
  | GenericReceiveFailure
  | Watchdog
  | LateCollision
  | IpHeaderChecksumMismatch
  | Overflow
  | Truncation
  | PayloadError
  | HeaderError
  | UnsupportedFrameFormat
  | Busy
  | TransmitProcessStopped
  | TransmitJabberTimeout
  | ReceiveOverflow
  | TransmitUnderflow
  | ReceiveBufferUnavailable
  | ReceiveProcessStopped
  | ReceiveWatchdogTimeout
  | FatalBusError
  | NoFlashData
  | Unspecified

definition spec_kinds :: "ErrorKind list" where
  "spec_kinds =
    [PhyWriteTimeout, PhyReadTimeout, PhyWaitTimeout, CrcFailure, FrameTooBig,
     TransmitFailure, GenericReceiveFailure, Watchdog, LateCollision,
     IpHeaderChecksumMismatch, Overflow, Truncation, PayloadError, HeaderError,
     UnsupportedFrameFormat, Busy, TransmitProcessStopped, TransmitJabberTimeout,
     ReceiveOverflow, TransmitUnderflow, ReceiveBufferUnavailable, ReceiveProcessStopped,
     ReceiveWatchdogTimeout, FatalBusError, NoFlashData, Unspecified]"

primrec tag_of_kind :: "ErrorKind \<Rightarrow> ErrorCode" where
  "tag_of_kind PhyWriteTimeout = E_PHY_WRITE_TIMEOUT"
| "tag_of_kind PhyReadTimeout = E_PHY_READ_TIMEOUT"
| "tag_of_kind PhyWaitTimeout = E_PHY_WAIT_TIMEOUT"
| "tag_of_kind CrcFailure = E_CRC"
| "tag_of_kind FrameTooBig = E_TOO_BIG"
| "tag_of_kind TransmitFailure = E_TRANSMIT_ERROR"
| "tag_of_kind GenericReceiveFailure = E_RECEIVE"
| "tag_of_kind Watchdog = E_WATCHDOG"
| "tag_of_kind LateCollision = E_LATE_COLLISION"
| "tag_of_kind IpHeaderChecksumMismatch = E_IP_HEADER_CHECKSUM"
| "tag_of_kind Overflow = E_OVERFLOW"
| "tag_of_kind Truncation = E_TRUNCATED"
| "tag_of_kind PayloadError = E_PAYLOAD"
| "tag_of_kind HeaderError = E_HEADER"
| "tag_of_kind UnsupportedFrameFormat = E_UNSUPPORTED_802_3_FRAME_FORMAT"
| "tag_of_kind Busy = E_BUSY"
| "tag_of_kind TransmitProcessStopped = E_TRANSMIT_PROCESS_STOPPED"
| "tag_of_kind TransmitJabberTimeout = E_TRANSMIT_JABBER_TIMEOUT"
| "tag_of_kind ReceiveOverflow = E_RECEIVE_OVERFLOW"
| "tag_of_kind TransmitUnderflow = E_TRANSMIT_UNDERFLOW"
| "tag_of_kind ReceiveBufferUnavailable = E_RECEIVE_BUFFER_UNAVAILABLE"
| "tag_of_kind ReceiveProcessStopped = E_RECEIVE_PROCESS_STOPPED"
| "tag_of_kind ReceiveWatchdogTimeout = E_RECEIVE_WATCHDOG_TIMEOUT"
| "tag_of_kind FatalBusError = E_FATAL_BUS_ERROR"
| "tag_of_kind NoFlashData = E_NO_FLASH_DATA"
| "tag_of_kind Unspecified = E_UNSPECIFIED"

section \<open>MacBase.h: parameters and the base class\<close>

text \<open>
  \<^verbatim>\<open>MacAddress\<close> is declared outside these files; the constructor of
  \<^verbatim>\<open>Parameters\<close> uses its member \<^verbatim>\<open>macAddress\<close>, an array of bytes written at the
  indices 0 to 5. The array is a function from the index to the byte.
\<close>

record MacAddress =
  macAddress :: "nat \<Rightarrow> 8 word"

record Parameters =
  mac_mtu :: "16 word"
  mac_address :: MacAddress
  mac_txWaitMillis :: "32 word"
  mac_receiveBufferCount :: "8 word"
  mac_transmitBufferCount :: "8 word"

text \<open>One assignment \<^verbatim>\<open>mac_address.macAddress[i]=v\<close>.\<close>

definition set_macAddress :: "nat \<Rightarrow> 8 word \<Rightarrow> Parameters \<Rightarrow> Parameters" where
  "set_macAddress i v p =
     p\<lparr>mac_address := (mac_address p)\<lparr>macAddress := (macAddress (mac_address p))(i := v)\<rparr>\<rparr>"

text \<open>
  The constructor \<^verbatim>\<open>Parameters()\<close>. Its argument is the content of the object's
  storage before the constructor runs (the members have no initialisers); the
  assignments follow the source line by line.
\<close>

definition Parameters_ctor :: "Parameters \<Rightarrow> Parameters" where
  "Parameters_ctor u =
    (let p = u\<lparr>mac_mtu := 1518\<rparr>;
         p = set_macAddress 0 2 p;
         p = set_macAddress 1 0 p;
         p = set_macAddress 2 0 p;
         p = set_macAddress 3 0 p;
         p = set_macAddress 4 0 p;
         p = set_macAddress 5 0 p;
         p = p\<lparr>mac_txWaitMillis := 200\<rparr>;
         p = p\<lparr>mac_receiveBufferCount := 5\<rparr>;
         p = p\<lparr>mac_transmitBufferCount := 5\<rparr>
     in p)"

text \<open>
  The members of \<^verbatim>\<open>MacBase\<close> that the functions of this file read:
  \<^verbatim>\<open>_transmitBufferIndex\<close> (an \<^verbatim>\<open>int\<close>, read with \<open>sint\<close>) and \<^verbatim>\<open>_params\<close>. The
  descriptor and buffer arrays have element types declared elsewhere and no function
  here touches them.
\<close>

record MacBase =
  transmitBufferIndex :: "32 word"
  params :: Parameters

definition getDatalinkTransmitHeaderSize :: "MacBase \<Rightarrow> 32 word" where
  "getDatalinkTransmitHeaderSize this = 14"

text \<open>\<^verbatim>\<open>return _params.mac_mtu\<close>: the 16-bit member is zero-extended to the 32-bit result.\<close>

definition getDatalinkMtuSize :: "MacBase \<Rightarrow> 32 word" where
  "getDatalinkMtuSize this = ucast (mac_mtu (params this))"


text \<open>
  The static member \<^verbatim>\<open>MacBase::_instance\<close> lives outside every object. \<open>None\<close> is the
  null pointer. The machine state carries, beside the pointer, the interrupt enable
  flag and a history of the accesses to the pointer in the order they happen.
\<close>

type_synonym addr = nat

datatype access = InstanceWrite addr | InstanceRead | EnableInterrupts

record machine =
  MacBase_instance :: "addr option"
  irq_enabled :: bool
  history :: "access list"

definition reset_machine :: machine where
  "reset_machine = \<lparr>MacBase_instance = None, irq_enabled = False, history = []\<rparr>"

text \<open>The assignment \<^verbatim>\<open>_instance=this\<close>.\<close>

definition write_instance :: "addr \<Rightarrow> machine \<Rightarrow> machine" where
  "write_instance this m =
     m\<lparr>MacBase_instance := Some this, history := history m @ [InstanceWrite this]\<rparr>"

text \<open>
  The constructor \<^verbatim>\<open>MacBase::MacBase()\<close> for the object at address \<open>this\<close>, whose storage
  holds \<open>u\<close> before: the member \<^verbatim>\<open>_params\<close> is default-constructed by
  \<^verbatim>\<open>Parameters()\<close>, \<^verbatim>\<open>_transmitBufferIndex\<close> is left as it was, and the body stores
  \<^verbatim>\<open>this\<close> in the static pointer.
\<close>

definition MacBase_ctor :: "addr \<Rightarrow> MacBase \<Rightarrow> machine \<Rightarrow> MacBase \<times> machine" where
  "MacBase_ctor this u m = (u\<lparr>params := Parameters_ctor (params u)\<rparr>, write_instance this m)"

section \<open>Operations of MacBase that are only declared in MacBase.h\<close>

text \<open>
  Modelled from the spec: the body of \<^verbatim>\<open>MacBase::initialise\<close> is missing (MacBase.h
  declares it at line 132). Section 4.2 of the specification: it stores the
  parameters and records the singleton instance pointer used by the interrupt entry
  points. The descriptor rings it also builds play no part in what is proved here and
  are left out.
\<close>

definition initialise :: "addr \<Rightarrow> Parameters \<Rightarrow> MacBase \<Rightarrow> machine \<Rightarrow> MacBase \<times> machine" where
  "initialise this p obj m = (obj\<lparr>params := p\<rparr>, write_instance this m)"

text \<open>
  Modelled from the spec: the body of \<^verbatim>\<open>MacBase::startup\<close> is missing (declared at line
  133). Section 4.2: it arms the DMA engine and enables the configured interrupt
  sources.
\<close>

definition startup :: "machine \<Rightarrow> machine" where
  "startup m = m\<lparr>irq_enabled := True, history := history m @ [EnableInterrupts]\<rparr>"

text \<open>
  Modelled from the spec: the interrupt sources of the MAC, whose entry points are
  missing. Sections 2 and 4.5: receive-complete, transmit-complete, and error with its
  hardware status word.
\<close>

datatype irq = ReceiveIrq | TransmitIrq | ErrorIrq "32 word"

text \<open>
  Modelled from the spec: the three interrupt entry points of the MAC are missing.
  Sections 4.5 and 9: an entry point has no parameter, reaches the driver through one
  read of the instance pointer and calls the driver's handler on it. The result is the
  object the handler is called on.
\<close>

definition interrupt_entry :: "irq \<Rightarrow> machine \<Rightarrow> addr option \<times> machine" where
  "interrupt_entry q m = (MacBase_instance m, m\<lparr>history := history m @ [InstanceRead]\<rparr>)"

text \<open>
  A run of interrupts on a machine, one entry after the other: the objects the
  handlers were called on, and the machine afterwards.
\<close>

fun interrupts :: "irq list \<Rightarrow> machine \<Rightarrow> addr option list \<times> machine" where
  "interrupts [] m = ([], m)"
| "interrupts (q # qs) m =
     (case interrupt_entry q m of (target, m') \<Rightarrow>
        (case interrupts qs m' of (targets, m'') \<Rightarrow> (target # targets, m'')))"

text \<open>
  Modelled from the spec: the caller's code that brings the driver up is missing.
  Section 4.2 gives the order: the object is constructed, initialised with the
  caller's parameters, and started.
\<close>

definition bring_up :: "addr \<Rightarrow> Parameters \<Rightarrow> MacBase \<Rightarrow> machine \<Rightarrow> MacBase \<times> machine" where
  "bring_up this p u m =
     (case MacBase_ctor this u m of (obj, m1) \<Rightarrow>
        (case initialise this p obj m1 of (obj', m2) \<Rightarrow> (obj', startup m2)))"

text \<open>The accesses of a history from the enabling of the interrupts on.\<close>

definition after_enable :: "access list \<Rightarrow> access list" where
  "after_enable h = dropWhile (\<lambda>a. a \<noteq> EnableInterrupts) h"

fun is_write :: "access \<Rightarrow> bool" where
  "is_write (InstanceWrite a) = True"
| "is_write InstanceRead = False"
| "is_write EnableInterrupts = False"

text \<open>
  Modelled from the spec: the class \<^verbatim>\<open>NetBuffer\<close> is missing. Sections 4.3 and 8: a
  buffer submitted for sending has a size, and the completion is notified with the
  same buffer, so a buffer is known by an identity and its size.
\<close>

record NetBuffer =
  buffer_id :: nat
  buffer_size :: nat

text \<open>
  Modelled from the spec: the notification sink is missing. Section 6: it receives
  decoded frames, errors with the hardware status word that caused them, and send
  completions with their buffer.
\<close>

datatype notification =
    OnFrameReceived "8 word list"
  | OnError ErrorCode "32 word"
  | OnSendComplete NetBuffer

text \<open>
  Modelled from the spec: the state of the transmit path. Sections 4.3 and 5: the
  driver object with its parameters; the submitted frame, if any, whose
  transmit-complete interrupt has not fired (one slot is active for notification at a
  time); and the notifications the sink has received, oldest first.
\<close>

record mac_tx =
  mac :: MacBase
  tx_pending :: "NetBuffer option"
  sink :: "notification list"

text \<open>
  Modelled from the spec: the body of \<^verbatim>\<open>MacBase::handleTransmitInterrupt\<close> is missing
  (declared at line 141). Section 4.5: the pending send is done and its buffer goes
  back to the caller by a send-complete notification.
\<close>

definition handleTransmitInterrupt :: "mac_tx \<Rightarrow> mac_tx" where
  "handleTransmitInterrupt s =
     (case tx_pending s of
        None \<Rightarrow> s
      | Some nb \<Rightarrow> s\<lparr>tx_pending := None, sink := sink s @ [OnSendComplete nb]\<rparr>)"

text \<open>
  Modelled from the spec: the wait inside \<^verbatim>\<open>sendBuffer\<close>, whose body is missing. Section
  5: \<^verbatim>\<open>sendBuffer\<close> may busy-wait up to \<^verbatim>\<open>mac_txWaitMillis\<close> for the previous send to
  complete. The wait goes one millisecond at a time: \<open>wait_for_completion d w\<close> is
  whether a send that completes in \<open>d\<close> milliseconds has completed when at most \<open>w\<close>
  milliseconds are waited for it.
\<close>

fun wait_for_completion :: "nat \<Rightarrow> nat \<Rightarrow> bool" where
  "wait_for_completion 0 w = True"
| "wait_for_completion (Suc d) 0 = False"
| "wait_for_completion (Suc d) (Suc w) = wait_for_completion d w"

text \<open>
  Modelled from the spec: the size bound of \<^verbatim>\<open>sendBuffer\<close>, whose body is missing.
  Section 4.3: the MTU plus the header size, both as the driver object reports them.
\<close>

definition frame_limit :: "MacBase \<Rightarrow> nat" where
  "frame_limit this = unat (getDatalinkMtuSize this) + unat (getDatalinkTransmitHeaderSize this)"

text \<open>
  Modelled from the spec: the body of \<^verbatim>\<open>MacBase::sendBuffer\<close> is missing (declared at
  line 130). Sections 4.3, 5, 7 and 8 of the specification:
  \<^item> a frame larger than the MTU plus the 14-byte header always fails with
    \<open>E_TOO_BIG\<close>;
  \<^item> otherwise, when a prior send is pending, \<^verbatim>\<open>sendBuffer\<close> waits up to
    \<^verbatim>\<open>mac_txWaitMillis\<close> milliseconds for it to complete, and fails with \<open>E_BUSY\<close> when it
    has not completed by then; when it has, its transmit-complete interrupt has fired
    during the wait;
  \<^item> on success the frame is handed to the DMA and becomes the pending send;
  \<^item> both failures are results of the call, not notifications.
  The first argument is the environment's part: the number of milliseconds after which
  the pending send's transmit-complete interrupt fires. The driver is taken to be
  started; the specification gives no result for a driver that is not.
\<close>

definition sendBuffer :: "nat \<Rightarrow> NetBuffer \<Rightarrow> mac_tx \<Rightarrow> (ErrorCode + unit) \<times> mac_tx" where
  "sendBuffer completes_in nb s =
     (if frame_limit (mac s) < buffer_size nb then (Inl E_TOO_BIG, s)
      else
        (case tx_pending s of
           None \<Rightarrow> (Inr (), s\<lparr>tx_pending := Some nb\<rparr>)
         | Some prior \<Rightarrow>
             if wait_for_completion completes_in (unat (mac_txWaitMillis (params (mac s))))
             then (Inr (), (handleTransmitInterrupt s)\<lparr>tx_pending := Some nb\<rparr>)
             else (Inl E_BUSY, s)))"

section \<open>Dma1Channel4InterruptHandler.cpp\<close>

text \<open>
  The handler of the interrupt of DMA1, channel 4. The names it uses are declared
  outside these files: the flag constants \<^verbatim>\<open>DMA1_IT_TC4\<close>, \<^verbatim>\<open>DMA1_IT_HT4\<close> and
  \<^verbatim>\<open>DMA1_IT_TE4\<close> (transfer complete, half transfer, transfer error), the event types,
  the two calls of the peripheral library, the event sender and the barrier.

  The three constants name three different bits of the interrupt status register of
  DMA1, so the part of the register that the handler can see is the set of the flags
  that are pending. The state holds that set and, in \<open>trace\<close>, the calls with an effect
  that have been made, in program order.
\<close>

datatype dma_it = DMA1_IT_TC4 | DMA1_IT_HT4 | DMA1_IT_TE4

datatype DmaEventType = EVENT_COMPLETE | EVENT_HALF_COMPLETE | EVENT_TRANSFER_ERROR

datatype action = Raise DmaEventType | Clear dma_it | Barrier

record dma_state =
  ISR :: "dma_it set"
  trace :: "action list"

text \<open>
  Modelled from the spec: the library function \<^verbatim>\<open>DMA_GetITStatus\<close> is missing. Section 6:
  an interrupt entry point reads hardware status bits. The result is whether the flag
  is pending (\<open>True\<close> for a result other than \<^verbatim>\<open>RESET\<close>); reading has no effect.
\<close>

definition DMA_GetITStatus :: "dma_it \<Rightarrow> dma_state \<Rightarrow> bool" where
  "DMA_GetITStatus it s = (it \<in> ISR s)"

text \<open>
  Modelled from the spec: the library function \<^verbatim>\<open>DMA_ClearITPendingBit\<close> is missing.
  Section 6: an interrupt entry point clears hardware status bits. The call takes the
  flag it names, and no other, out of the pending flags.
\<close>

definition DMA_ClearITPendingBit :: "dma_it \<Rightarrow> dma_state \<Rightarrow> dma_state" where
  "DMA_ClearITPendingBit it s = s\<lparr>ISR := ISR s - {it}, trace := trace s @ [Clear it]\<rparr>"

text \<open>
  Modelled from the spec: \<^verbatim>\<open>DmaInterruptEventSender.raiseEvent\<close> is missing, called on
  the object that \<^verbatim>\<open>_dmaInstance\<close> points to (set when the feature is constructed).
  Section 1: the observer plumbing that notifies the rest of the system is an external
  collaborator. What a subscriber does is not the handler's; the handler's effect is
  the event it raises.
\<close>

definition raiseEvent :: "DmaEventType \<Rightarrow> dma_state \<Rightarrow> dma_state" where
  "raiseEvent e s = s\<lparr>trace := trace s @ [Raise e]\<rparr>"

text \<open>The barrier instruction \<^verbatim>\<open>__DSB()\<close>: no effect on the state but its place in the trace.\<close>

definition DSB :: "dma_state \<Rightarrow> dma_state" where
  "DSB s = s\<lparr>trace := trace s @ [Barrier]\<rparr>"

text \<open>
  \<^verbatim>\<open>DMA1_Channel4_IRQHandler\<close>: the chain of \<^verbatim>\<open>if\<close> and \<^verbatim>\<open>else if\<close>, then the barrier.
  During one invocation the pending flags change by the handler's own calls only.
\<close>

definition DMA1_Channel4_IRQHandler :: "dma_state \<Rightarrow> dma_state" where
  "DMA1_Channel4_IRQHandler s =
     DSB
       (if DMA_GetITStatus DMA1_IT_TC4 s then
          DMA_ClearITPendingBit DMA1_IT_TC4 (raiseEvent EVENT_COMPLETE s)
        else if DMA_GetITStatus DMA1_IT_HT4 s then
          DMA_ClearITPendingBit DMA1_IT_HT4 (raiseEvent EVENT_HALF_COMPLETE s)
        else if DMA_GetITStatus DMA1_IT_TE4 s then
          DMA_ClearITPendingBit DMA1_IT_TE4 (raiseEvent EVENT_TRANSFER_ERROR s)
        else s)"

text \<open>The state at the entry of the handler: the pending flags and no call made yet.\<close>

definition entry :: "dma_it set \<Rightarrow> dma_state" where
  "entry isr = \<lparr>ISR = isr, trace = []\<rparr>"

text \<open>The events a trace raises, in order.\<close>

fun raised :: "action list \<Rightarrow> DmaEventType list" where
  "raised [] = []"
| "raised (Raise e # as) = e # raised as"
| "raised (Clear it # as) = raised as"
| "raised (Barrier # as) = raised as"

text \<open>The event that the handler's branch for a flag raises.\<close>

fun event_of :: "dma_it \<Rightarrow> DmaEventType" where
  "event_of DMA1_IT_TC4 = EVENT_COMPLETE"
| "event_of DMA1_IT_HT4 = EVENT_HALF_COMPLETE"
| "event_of DMA1_IT_TE4 = EVENT_TRANSFER_ERROR"

text \<open>The flags in the order the handler tests them, and those of them that are pending.\<close>

definition test_order :: "dma_it list" where
  "test_order = [DMA1_IT_TC4, DMA1_IT_HT4, DMA1_IT_TE4]"

definition pending :: "dma_it set \<Rightarrow> dma_it list" where
  "pending isr = filter (\<lambda>it. it \<in> isr) test_order"

text \<open>
  Successive invocations: a flag that the handler leaves pending keeps the interrupt
  requested, and the handler is entered again.
\<close>

fun invocations :: "nat \<Rightarrow> dma_state \<Rightarrow> dma_state" where
  "invocations 0 s = s"
| "invocations (Suc n) s = invocations n (DMA1_Channel4_IRQHandler s)"

text \<open>
  A driver object for the examples: every member zero, then the parameters
  default-constructed.
\<close>

definition zero_parameters :: Parameters where
  "zero_parameters =
     \<lparr>mac_mtu = 0, mac_address = \<lparr>macAddress = (\<lambda>i. 0)\<rparr>, mac_txWaitMillis = 0,
      mac_receiveBufferCount = 0, mac_transmitBufferCount = 0\<rparr>"

definition default_mac :: MacBase where
  "default_mac = \<lparr>transmitBufferIndex = 0, params = Parameters_ctor zero_parameters\<rparr>"

section \<open>Properties of MacBase.h\<close>

lemma enum_values:
  "enum_from 1 enumerators =
    [(E_PHY_WRITE_TIMEOUT, 1), (E_PHY_READ_TIMEOUT, 2), (E_PHY_WAIT_TIMEOUT, 3), (E_CRC, 4),
     (E_TOO_BIG, 5), (E_TRANSMIT_ERROR, 6), (E_RECEIVE, 7), (E_WATCHDOG, 8),
     (E_LATE_COLLISION, 9), (E_IP_HEADER_CHECKSUM, 10), (E_OVERFLOW, 11), (E_TRUNCATED, 12),
     (E_PAYLOAD, 13), (E_HEADER, 14), (E_UNSUPPORTED_802_3_FRAME_FORMAT, 15), (E_BUSY, 16),
     (E_TRANSMIT_PROCESS_STOPPED, 17), (E_TRANSMIT_JABBER_TIMEOUT, 18),
     (E_RECEIVE_OVERFLOW, 19), (E_TRANSMIT_UNDERFLOW, 20),
     (E_RECEIVE_BUFFER_UNAVAILABLE, 21), (E_RECEIVE_PROCESS_STOPPED, 22),
     (E_RECEIVE_WATCHDOG_TIMEOUT, 23), (E_FATAL_BUS_ERROR, 24), (E_NO_FLASH_DATA, 25),
     (E_UNSPECIFIED, 26)]"
  by (simp add: enumerators_def)

lemma error_value_range: "1 \<le> error_value e \<and> error_value e \<le> 26"
  unfolding error_value_def enum_values by (cases e) simp_all

lemma error_values_list: "map error_value enumerators = [1, 2, 3, 4, 5, 6, 7, 8, 9, 10, 11, 12, 13,
    14, 15, 16, 17, 18, 19, 20, 21, 22, 23, 24, 25, 26]"
  unfolding error_value_def enum_values by (simp add: enumerators_def)

lemma enumerators_all: "set enumerators = UNIV"
proof -
  have "e \<in> set enumerators" for e
    by (cases e) (simp_all add: enumerators_def)
  then show ?thesis by blast
qed

lemma enumerators_distinct: "distinct enumerators"
  by (simp add: enumerators_def)

lemma spec_kinds_all: "set spec_kinds = UNIV"
proof -
  have "k \<in> set spec_kinds" for k
    by (cases k) (simp_all add: spec_kinds_def)
  then show ?thesis by blast
qed

lemma spec_kinds_distinct: "distinct spec_kinds"
  by (simp add: spec_kinds_def)

lemma tags_in_order: "map tag_of_kind spec_kinds = enumerators"
  by (simp add: spec_kinds_def enumerators_def)

lemma error_value_inj: "inj error_value"
proof -
  have "distinct (map error_value enumerators)"
    unfolding error_values_list by simp
  then have "inj_on error_value (set enumerators)"
    by (simp add: distinct_map)
  then show ?thesis
    by (simp add: enumerators_all)
qed

lemma tag_of_kind_bij: "bij tag_of_kind"
proof -
  have "distinct (map tag_of_kind spec_kinds)"
    by (simp add: tags_in_order enumerators_distinct)
  then have "inj_on tag_of_kind (set spec_kinds)"
    by (simp add: distinct_map)
  then have i: "inj tag_of_kind"
    by (simp add: spec_kinds_all)
  have "range tag_of_kind = set (map tag_of_kind spec_kinds)"
    by (simp add: spec_kinds_all)
  then have "range tag_of_kind = UNIV"
    by (simp only: tags_in_order enumerators_all)
  with i show ?thesis
    by (simp add: bij_def)
qed

lemma unat_ucast_16_32: "unat (ucast (w :: 16 word) :: 32 word) = unat w"
proof -
  have "unat w < 2 ^ 16"
    using unsigned_less [of w] by simp
  then have "unat w < 2 ^ 32"
    by simp
  then show ?thesis
    by (simp add: unsigned_ucast_eq take_bit_nat_eq_self)
qed

lemma unat_getDatalinkMtuSize:
  "unat (getDatalinkMtuSize this) = unat (mac_mtu (params this))"
  by (simp add: getDatalinkMtuSize_def unat_ucast_16_32)

lemma Parameters_ctor_fields:
  "mac_mtu (Parameters_ctor u) = 1518"
  "macAddress (mac_address (Parameters_ctor u)) 0 = 2"
  "macAddress (mac_address (Parameters_ctor u)) (Suc 0) = 0"
  "macAddress (mac_address (Parameters_ctor u)) 2 = 0"
  "macAddress (mac_address (Parameters_ctor u)) 3 = 0"
  "macAddress (mac_address (Parameters_ctor u)) 4 = 0"
  "macAddress (mac_address (Parameters_ctor u)) 5 = 0"
  "mac_txWaitMillis (Parameters_ctor u) = 200"
  "mac_receiveBufferCount (Parameters_ctor u) = 5"
  "mac_transmitBufferCount (Parameters_ctor u) = 5"
  by (simp_all add: Parameters_ctor_def set_macAddress_def)

lemma upt_6: "[0..<6] = [0, Suc 0, 2, 3, 4, 5]"
  by (simp add: upt_rec)

text \<open>
  C4. \<^verbatim>\<open>getDatalinkTransmitHeaderSize\<close> returns 14 on every driver object, which is
  the size of two 6-byte MAC addresses and a 2-byte EtherType; the result is the same
  when the object's parameters are replaced by any others.
\<close>

theorem getDatalinkTransmitHeaderSize_14:
  "getDatalinkTransmitHeaderSize this = 14 \<and>
   unat (getDatalinkTransmitHeaderSize this) = 2 * 6 + 2 \<and>
   getDatalinkTransmitHeaderSize (this\<lparr>params := p\<rparr>) = getDatalinkTransmitHeaderSize this"
  by (simp add: getDatalinkTransmitHeaderSize_def)

text \<open>
  C5. The enumeration has one enumerator for each of the 26 kinds of failure that the
  specification lists, and no other: \<open>tag_of_kind\<close> maps the kinds, in the
  specification's order, onto the enumerators in their order of declaration, and is a
  bijection. The values are the numbers 1 to 26 in that order, so they are pairwise
  different and none is zero.
\<close>

theorem error_taxonomy_closed:
  "map tag_of_kind spec_kinds = enumerators \<and>
   distinct spec_kinds \<and> set spec_kinds = UNIV \<and>
   distinct enumerators \<and> set enumerators = UNIV \<and>
   length enumerators = 26 \<and>
   bij tag_of_kind \<and>
   map error_value enumerators = map int [1..<27] \<and>
   distinct (map error_value enumerators) \<and>
   inj error_value \<and>
   (\<forall>e. error_value e \<noteq> 0)"
proof -
  have v: "map error_value enumerators = map int [1..<27]"
    unfolding error_values_list by (simp add: upt_rec)
  have d: "distinct (map error_value enumerators)"
    unfolding error_values_list by simp
  have n: "\<forall>e. error_value e \<noteq> 0"
    using error_value_range by (metis not_one_le_zero)
  have l: "length enumerators = 26"
    by (simp add: enumerators_def)
  from v d n l show ?thesis
    by (simp only: tags_in_order spec_kinds_distinct spec_kinds_all enumerators_distinct
        enumerators_all tag_of_kind_bij error_value_inj simp_thms)
qed

text \<open>
  C7. Whatever the storage held before, a default-constructed \<^verbatim>\<open>Parameters\<close> has
  \<^verbatim>\<open>mac_mtu\<close> 1518, the MAC address 02-00-00-00-00-00 and \<^verbatim>\<open>mac_txWaitMillis\<close> 200.
  \<^verbatim>\<open>getDatalinkMtuSize\<close> returns the stored \<^verbatim>\<open>mac_mtu\<close> of the object it is called on:
  1518 on an object that holds the default parameters, as a newly constructed
  \<^verbatim>\<open>MacBase\<close> does.
\<close>

theorem Parameters_defaults:
  "mac_mtu (Parameters_ctor u) = 1518 \<and>
   map (macAddress (mac_address (Parameters_ctor u))) [0..<6] = [2, 0, 0, 0, 0, 0] \<and>
   mac_txWaitMillis (Parameters_ctor u) = 200 \<and>
   unat (getDatalinkMtuSize this) = unat (mac_mtu (params this)) \<and>
   getDatalinkMtuSize (this\<lparr>params := Parameters_ctor u\<rparr>) = 1518 \<and>
   getDatalinkMtuSize (fst (MacBase_ctor a this m)) = 1518"
  by (simp add: Parameters_ctor_fields upt_6 unat_getDatalinkMtuSize MacBase_ctor_def)
    (simp add: getDatalinkMtuSize_def Parameters_ctor_fields)

text \<open>
  C10. Whatever the storage held before, a default-constructed \<^verbatim>\<open>Parameters\<close> has
  both buffer counts equal to 5.
\<close>

theorem Parameters_default_buffer_counts:
  "mac_receiveBufferCount (Parameters_ctor u) = 5 \<and>
   mac_transmitBufferCount (Parameters_ctor u) = 5"
  by (simp add: Parameters_ctor_fields)

section \<open>Properties of the DMA1 channel 4 handler\<close>

text \<open>One invocation, branch by branch.\<close>

lemma handler_TC:
  "DMA1_IT_TC4 \<in> ISR s \<Longrightarrow>
   DMA1_Channel4_IRQHandler s =
     \<lparr>ISR = ISR s - {DMA1_IT_TC4},
      trace = trace s @ [Raise EVENT_COMPLETE, Clear DMA1_IT_TC4, Barrier]\<rparr>"
  by (simp add: DMA1_Channel4_IRQHandler_def DMA_GetITStatus_def DMA_ClearITPendingBit_def
      raiseEvent_def DSB_def)

lemma handler_HT:
  "DMA1_IT_TC4 \<notin> ISR s \<Longrightarrow> DMA1_IT_HT4 \<in> ISR s \<Longrightarrow>
   DMA1_Channel4_IRQHandler s =
     \<lparr>ISR = ISR s - {DMA1_IT_HT4},
      trace = trace s @ [Raise EVENT_HALF_COMPLETE, Clear DMA1_IT_HT4, Barrier]\<rparr>"
  by (simp add: DMA1_Channel4_IRQHandler_def DMA_GetITStatus_def DMA_ClearITPendingBit_def
      raiseEvent_def DSB_def)

lemma handler_TE:
  "DMA1_IT_TC4 \<notin> ISR s \<Longrightarrow> DMA1_IT_HT4 \<notin> ISR s \<Longrightarrow> DMA1_IT_TE4 \<in> ISR s \<Longrightarrow>
   DMA1_Channel4_IRQHandler s =
     \<lparr>ISR = ISR s - {DMA1_IT_TE4},
      trace = trace s @ [Raise EVENT_TRANSFER_ERROR, Clear DMA1_IT_TE4, Barrier]\<rparr>"
  by (simp add: DMA1_Channel4_IRQHandler_def DMA_GetITStatus_def DMA_ClearITPendingBit_def
      raiseEvent_def DSB_def)

lemma handler_none:
  "DMA1_IT_TC4 \<notin> ISR s \<Longrightarrow> DMA1_IT_HT4 \<notin> ISR s \<Longrightarrow> DMA1_IT_TE4 \<notin> ISR s \<Longrightarrow>
   DMA1_Channel4_IRQHandler s = \<lparr>ISR = ISR s, trace = trace s @ [Barrier]\<rparr>"
  by (simp add: DMA1_Channel4_IRQHandler_def DMA_GetITStatus_def DSB_def)

lemma raised_append: "raised (xs @ ys) = raised xs @ raised ys"
  by (induction xs rule: raised.induct) simp_all

text \<open>
  The first pending flag in the test order is the one an invocation serves; the rest
  stay.
\<close>

lemma handler_pending_Cons:
  assumes "pending (ISR s) = it # its"
  shows "DMA1_Channel4_IRQHandler s =
           \<lparr>ISR = ISR s - {it}, trace = trace s @ [Raise (event_of it), Clear it, Barrier]\<rparr>"
    and "pending (ISR s - {it}) = its"
proof -
  show "DMA1_Channel4_IRQHandler s =
           \<lparr>ISR = ISR s - {it}, trace = trace s @ [Raise (event_of it), Clear it, Barrier]\<rparr>"
    using assms
    by (cases "DMA1_IT_TC4 \<in> ISR s"; cases "DMA1_IT_HT4 \<in> ISR s"; cases "DMA1_IT_TE4 \<in> ISR s")
      (auto simp: pending_def test_order_def handler_TC handler_HT handler_TE)
  show "pending (ISR s - {it}) = its"
    using assms
    by (cases "DMA1_IT_TC4 \<in> ISR s"; cases "DMA1_IT_HT4 \<in> ISR s"; cases "DMA1_IT_TE4 \<in> ISR s")
      (auto simp: pending_def test_order_def)
qed

lemma handler_pending_Nil:
  assumes "pending (ISR s) = []"
  shows "DMA1_Channel4_IRQHandler s = \<lparr>ISR = ISR s, trace = trace s @ [Barrier]\<rparr>"
  using assms
  by (cases "DMA1_IT_TC4 \<in> ISR s"; cases "DMA1_IT_HT4 \<in> ISR s"; cases "DMA1_IT_TE4 \<in> ISR s")
    (auto simp: pending_def test_order_def handler_none)

lemma pending_set: "set (pending isr) = isr"
proof -
  have "set test_order = UNIV"
  proof -
    have "it \<in> set test_order" for it
      by (cases it) (simp_all add: test_order_def)
    then show ?thesis by blast
  qed
  then show ?thesis
    by (auto simp: pending_def)
qed

lemma pending_distinct: "distinct (pending isr)"
  by (simp add: pending_def test_order_def)

lemma pending_length: "length (pending isr) = card isr"
  using distinct_card [OF pending_distinct, of isr] by (simp add: pending_set)

lemma invocations_pending:
  "pending (ISR s) = its \<Longrightarrow>
   ISR (invocations (length its) s) = {} \<and>
   raised (trace (invocations (length its) s)) = raised (trace s) @ map event_of its"
proof (induction its arbitrary: s)
  case Nil
  have "ISR s = set (pending (ISR s))"
    by (simp add: pending_set)
  with Nil show ?case by simp
next
  case (Cons it its)
  let ?s' = "DMA1_Channel4_IRQHandler s"
  from handler_pending_Cons [OF Cons.prems]
  have s': "?s' = \<lparr>ISR = ISR s - {it}, trace = trace s @ [Raise (event_of it), Clear it, Barrier]\<rparr>"
    and p': "pending (ISR s - {it}) = its"
    by simp_all
  from p' s' have "pending (ISR ?s') = its"
    by simp
  from Cons.IH [OF this] show ?case
    by (simp add: s' raised_append)
qed

lemma handler_entry:
  "DMA1_Channel4_IRQHandler (entry isr) =
     \<lparr>ISR = isr - set (take 1 (pending isr)),
      trace = concat (map (\<lambda>it. [Raise (event_of it), Clear it]) (take 1 (pending isr))) @ [Barrier]\<rparr>"
proof (cases "pending isr")
  case Nil
  then have "pending (ISR (entry isr)) = []"
    by (simp add: entry_def)
  from handler_pending_Nil [OF this] Nil show ?thesis
    by (simp add: entry_def)
next
  case (Cons it its)
  then have "pending (ISR (entry isr)) = it # its"
    by (simp add: entry_def)
  from handler_pending_Cons(1) [OF this] Cons show ?thesis
    by (simp add: entry_def)
qed

text \<open>
  An invocation is straight-line code: it makes at most three calls with an effect.
\<close>

lemma handler_bounded_calls:
  "length (trace (DMA1_Channel4_IRQHandler s)) \<le> length (trace s) + 3"
  by (simp add: DMA1_Channel4_IRQHandler_def DMA_GetITStatus_def DMA_ClearITPendingBit_def
      raiseEvent_def DSB_def)

text \<open>
  C1, as amended. One invocation reports the first pending flag of the test order
  only, so it raises one event when a flag is pending and none otherwise. As many
  successive invocations as there are pending flags raise the events of all the
  pending flags, each once, in the test order, and leave no flag pending.
\<close>

theorem every_flag_reported_over_invocations:
  "raised (trace (DMA1_Channel4_IRQHandler (entry isr))) = map event_of (take 1 (pending isr)) \<and>
   length (raised (trace (DMA1_Channel4_IRQHandler (entry isr)))) = min 1 (card isr) \<and>
   raised (trace (invocations (card isr) (entry isr))) = map event_of (pending isr) \<and>
   ISR (invocations (card isr) (entry isr)) = {} \<and>
   set (pending isr) = isr \<and> distinct (pending isr) \<and> inj event_of"
proof -
  have one: "raised (trace (DMA1_Channel4_IRQHandler (entry isr))) = map event_of (take 1 (pending isr))"
    unfolding handler_entry by (cases "pending isr") simp_all
  have len: "length (raised (trace (DMA1_Channel4_IRQHandler (entry isr)))) = min 1 (card isr)"
    unfolding one by (simp add: pending_length min.commute)
  have "pending (ISR (entry isr)) = pending isr"
    by (simp add: entry_def)
  from invocations_pending [OF this]
  have all: "raised (trace (invocations (card isr) (entry isr))) = map event_of (pending isr)"
    and none: "ISR (invocations (card isr) (entry isr)) = {}"
    by (simp_all add: pending_length entry_def)
  have inj: "inj event_of"
  proof (rule injI)
    fix a b
    assume "event_of a = event_of b"
    then show "a = b"
      by (cases a; cases b) simp_all
  qed
  from one len all none inj show ?thesis
    by (simp add: pending_set pending_distinct)
qed

text \<open>
  C1, as stated, fails: with the transfer-complete and the half-transfer flags both
  pending, the two set bits get one notification, not two; the half-transfer event
  is not raised and its flag stays pending.
\<close>

theorem one_notification_per_set_bit_counterexample:
  "card {DMA1_IT_TC4, DMA1_IT_HT4} = 2 \<and>
   raised (trace (DMA1_Channel4_IRQHandler (entry {DMA1_IT_TC4, DMA1_IT_HT4}))) = [EVENT_COMPLETE] \<and>
   length (raised (trace (DMA1_Channel4_IRQHandler (entry {DMA1_IT_TC4, DMA1_IT_HT4}))))
     \<noteq> card {DMA1_IT_TC4, DMA1_IT_HT4} \<and>
   ISR (DMA1_Channel4_IRQHandler (entry {DMA1_IT_TC4, DMA1_IT_HT4})) = {DMA1_IT_HT4}"
proof -
  have "DMA1_IT_TC4 \<in> ISR (entry {DMA1_IT_TC4, DMA1_IT_HT4})"
    by (simp add: entry_def)
  from handler_TC [OF this] show ?thesis
    by (auto simp: entry_def)
qed

text \<open>
  C2. In the calls of one invocation, a pending bit is cleared only for a flag that was
  pending at the entry, and the call before the clearing raises that flag's event: no
  bit is cleared before, or without, its event being raised.
\<close>

theorem clear_follows_raise:
  assumes "tr = trace (DMA1_Channel4_IRQHandler (entry isr))"
    and "j < length tr"
    and "tr ! j = Clear it"
  shows "it \<in> isr \<and> 0 < j \<and> tr ! (j - 1) = Raise (event_of it) \<and>
         (\<exists>i<j. tr ! i = Raise (event_of it))"
proof (cases "pending isr")
  case Nil
  with assms show ?thesis
    by (simp add: handler_entry)
next
  case (Cons it' its)
  then have tr: "tr = [Raise (event_of it'), Clear it', Barrier]"
    using assms(1) by (simp add: handler_entry)
  have "it' \<in> set (pending isr)"
    by (simp add: Cons)
  then have in_isr: "it' \<in> isr"
    by (simp add: pending_set)
  from assms(2) tr have "j = 0 \<or> j = 1 \<or> j = 2"
    by auto
  with assms(3) tr have j: "j = 1" and it: "it = it'"
    by auto
  from j it tr in_isr show ?thesis
    by auto
qed

theorem clear_follows_raise_witness:
  "trace (DMA1_Channel4_IRQHandler (entry {DMA1_IT_HT4, DMA1_IT_TE4})) ! 1 = Clear DMA1_IT_HT4 \<and>
   trace (DMA1_Channel4_IRQHandler (entry {DMA1_IT_HT4, DMA1_IT_TE4})) ! 0 = Raise EVENT_HALF_COMPLETE \<and>
   DMA1_IT_HT4 \<in> {DMA1_IT_HT4, DMA1_IT_TE4}"
proof -
  have t: "trace (DMA1_Channel4_IRQHandler (entry {DMA1_IT_HT4, DMA1_IT_TE4})) =
      [Raise EVENT_HALF_COMPLETE, Clear DMA1_IT_HT4, Barrier]"
    by (simp add: handler_HT entry_def)
  have l: "1 < length (trace (DMA1_Channel4_IRQHandler (entry {DMA1_IT_HT4, DMA1_IT_TE4})))"
    by (simp add: t)
  have c: "trace (DMA1_Channel4_IRQHandler (entry {DMA1_IT_HT4, DMA1_IT_TE4})) ! 1 = Clear DMA1_IT_HT4"
    by (simp add: t)
  from clear_follows_raise [OF refl l c] c show ?thesis
    by simp
qed

text \<open>
  C9. One invocation tests the flags in the order transfer complete, half transfer,
  transfer error, and serves the first that is pending: it raises that flag's event,
  clears that flag and no other, and raises nothing else. With no flag pending it
  raises nothing and clears nothing. So an invocation raises at most one event, and
  every other pending flag is still pending afterwards.
\<close>

theorem handler_serves_first_pending_flag:
  "(DMA1_IT_TC4 \<in> isr \<longrightarrow>
      DMA1_Channel4_IRQHandler (entry isr) =
        \<lparr>ISR = isr - {DMA1_IT_TC4},
         trace = [Raise EVENT_COMPLETE, Clear DMA1_IT_TC4, Barrier]\<rparr>) \<and>
   (DMA1_IT_TC4 \<notin> isr \<and> DMA1_IT_HT4 \<in> isr \<longrightarrow>
      DMA1_Channel4_IRQHandler (entry isr) =
        \<lparr>ISR = isr - {DMA1_IT_HT4},
         trace = [Raise EVENT_HALF_COMPLETE, Clear DMA1_IT_HT4, Barrier]\<rparr>) \<and>
   (DMA1_IT_TC4 \<notin> isr \<and> DMA1_IT_HT4 \<notin> isr \<and> DMA1_IT_TE4 \<in> isr \<longrightarrow>
      DMA1_Channel4_IRQHandler (entry isr) =
        \<lparr>ISR = isr - {DMA1_IT_TE4},
         trace = [Raise EVENT_TRANSFER_ERROR, Clear DMA1_IT_TE4, Barrier]\<rparr>) \<and>
   (DMA1_IT_TC4 \<notin> isr \<and> DMA1_IT_HT4 \<notin> isr \<and> DMA1_IT_TE4 \<notin> isr \<longrightarrow>
      DMA1_Channel4_IRQHandler (entry isr) = \<lparr>ISR = isr, trace = [Barrier]\<rparr>) \<and>
   length (raised (trace (DMA1_Channel4_IRQHandler (entry isr)))) \<le> 1 \<and>
   ISR (DMA1_Channel4_IRQHandler (entry isr)) = isr - set (take 1 (pending isr))"
proof -
  have "length (raised (trace (DMA1_Channel4_IRQHandler (entry isr)))) \<le> 1"
    unfolding handler_entry by (cases "pending isr") simp_all
  moreover have "ISR (DMA1_Channel4_IRQHandler (entry isr)) = isr - set (take 1 (pending isr))"
    unfolding handler_entry by simp
  ultimately show ?thesis
    by (simp add: handler_TC handler_HT handler_TE handler_none entry_def)
qed

theorem handler_serves_first_pending_flag_witness:
  "DMA1_Channel4_IRQHandler (entry {DMA1_IT_TC4, DMA1_IT_HT4}) =
     \<lparr>ISR = {DMA1_IT_HT4}, trace = [Raise EVENT_COMPLETE, Clear DMA1_IT_TC4, Barrier]\<rparr> \<and>
   DMA1_Channel4_IRQHandler (entry {DMA1_IT_HT4, DMA1_IT_TE4}) =
     \<lparr>ISR = {DMA1_IT_TE4}, trace = [Raise EVENT_HALF_COMPLETE, Clear DMA1_IT_HT4, Barrier]\<rparr> \<and>
   DMA1_Channel4_IRQHandler (entry {DMA1_IT_TE4}) =
     \<lparr>ISR = {}, trace = [Raise EVENT_TRANSFER_ERROR, Clear DMA1_IT_TE4, Barrier]\<rparr> \<and>
   DMA1_Channel4_IRQHandler (entry {}) = \<lparr>ISR = {}, trace = [Barrier]\<rparr>"
  using handler_serves_first_pending_flag [of "{DMA1_IT_TC4, DMA1_IT_HT4}"]
    handler_serves_first_pending_flag [of "{DMA1_IT_HT4, DMA1_IT_TE4}"]
    handler_serves_first_pending_flag [of "{DMA1_IT_TE4}"]
    handler_serves_first_pending_flag [of "{}"]
  by auto

section \<open>Properties of the operations modelled from the specification\<close>

lemma wait_for_completion_iff: "wait_for_completion d w \<longleftrightarrow> d \<le> w"
  by (induction d w rule: wait_for_completion.induct) simp_all

lemma frame_limit_eq: "frame_limit this = unat (mac_mtu (params this)) + 14"
  by (simp add: frame_limit_def unat_getDatalinkMtuSize getDatalinkTransmitHeaderSize_def)

lemma sendBuffer_too_big:
  "frame_limit (mac s) < buffer_size nb \<Longrightarrow> sendBuffer d nb s = (Inl E_TOO_BIG, s)"
  by (simp add: sendBuffer_def)

lemma sendBuffer_busy:
  "buffer_size nb \<le> frame_limit (mac s) \<Longrightarrow> tx_pending s = Some prior \<Longrightarrow>
   unat (mac_txWaitMillis (params (mac s))) < d \<Longrightarrow> sendBuffer d nb s = (Inl E_BUSY, s)"
  by (simp add: sendBuffer_def wait_for_completion_iff)

lemma sendBuffer_rejected:
  "fst (sendBuffer d nb s) = Inl e \<Longrightarrow> (e = E_TOO_BIG \<or> e = E_BUSY) \<and> snd (sendBuffer d nb s) = s"
  by (auto simp: sendBuffer_def split: if_splits option.splits)

text \<open>
  C3. \<^verbatim>\<open>sendBuffer\<close> returns its failure to the caller. A frame larger than the MTU plus
  the 14-byte header is rejected with \<open>E_TOO_BIG\<close>. A frame within that bound,
  submitted while a prior send is pending that does not complete within
  \<^verbatim>\<open>mac_txWaitMillis\<close> milliseconds, is rejected with \<open>E_BUSY\<close>; so a call made while
  such a send is pending fails whatever the frame. These are the only failures, and a
  rejected call changes nothing: the notification sink receives
  neither an error nor a send completion, and the rejected buffer is not queued, so no
  transmit-complete interrupt is due for it.
\<close>

theorem sendBuffer_rejections:
  "(unat (mac_mtu (params (mac s))) + 14 < buffer_size nb \<longrightarrow>
      sendBuffer d nb s = (Inl E_TOO_BIG, s)) \<and>
   (buffer_size nb \<le> unat (mac_mtu (params (mac s))) + 14 \<and> tx_pending s = Some prior \<and>
    unat (mac_txWaitMillis (params (mac s))) < d \<longrightarrow>
      sendBuffer d nb s = (Inl E_BUSY, s)) \<and>
   (tx_pending s = Some prior \<and> unat (mac_txWaitMillis (params (mac s))) < d \<longrightarrow>
      (\<exists>e. sendBuffer d nb s = (Inl e, s))) \<and>
   (\<forall>e. fst (sendBuffer d nb s) = Inl e \<longrightarrow>
      (e = E_TOO_BIG \<or> e = E_BUSY) \<and> snd (sendBuffer d nb s) = s \<and>
      sink (snd (sendBuffer d nb s)) = sink s \<and>
      tx_pending (snd (sendBuffer d nb s)) = tx_pending s)"
proof -
  have a: "unat (mac_mtu (params (mac s))) + 14 < buffer_size nb \<longrightarrow>
      sendBuffer d nb s = (Inl E_TOO_BIG, s)"
    using sendBuffer_too_big [of s nb d] by (simp add: frame_limit_eq)
  have b: "buffer_size nb \<le> unat (mac_mtu (params (mac s))) + 14 \<and> tx_pending s = Some prior \<and>
    unat (mac_txWaitMillis (params (mac s))) < d \<longrightarrow>
      sendBuffer d nb s = (Inl E_BUSY, s)"
    using sendBuffer_busy [of nb s prior d] by (simp add: frame_limit_eq)
  have c: "\<forall>e. fst (sendBuffer d nb s) = Inl e \<longrightarrow>
      (e = E_TOO_BIG \<or> e = E_BUSY) \<and> snd (sendBuffer d nb s) = s \<and>
      sink (snd (sendBuffer d nb s)) = sink s \<and>
      tx_pending (snd (sendBuffer d nb s)) = tx_pending s"
    using sendBuffer_rejected [of d nb s] by auto
  have f: "tx_pending s = Some prior \<and> unat (mac_txWaitMillis (params (mac s))) < d \<longrightarrow>
      (\<exists>e. sendBuffer d nb s = (Inl e, s))"
  proof (cases "unat (mac_mtu (params (mac s))) + 14 < buffer_size nb")
    case True
    with a show ?thesis by blast
  next
    case False
    with b show ?thesis by auto
  qed
  from a b f c show ?thesis
    by (intro conjI)
qed

theorem sendBuffer_rejections_witness:
  "sendBuffer 201 \<lparr>buffer_id = 2, buffer_size = 100\<rparr>
      \<lparr>mac = default_mac, tx_pending = Some \<lparr>buffer_id = 1, buffer_size = 60\<rparr>, sink = []\<rparr> =
     (Inl E_BUSY,
      \<lparr>mac = default_mac, tx_pending = Some \<lparr>buffer_id = 1, buffer_size = 60\<rparr>, sink = []\<rparr>) \<and>
   sendBuffer 0 \<lparr>buffer_id = 2, buffer_size = 1533\<rparr>
      \<lparr>mac = default_mac, tx_pending = None, sink = []\<rparr> =
     (Inl E_TOO_BIG, \<lparr>mac = default_mac, tx_pending = None, sink = []\<rparr>)"
proof -
  have m: "unat (mac_mtu (params default_mac)) = 1518"
    by (simp add: default_mac_def Parameters_ctor_fields)
  have w: "unat (mac_txWaitMillis (params default_mac)) = 200"
    by (simp add: default_mac_def Parameters_ctor_fields)
  show ?thesis
    using
      sendBuffer_rejections [of
        "\<lparr>mac = default_mac, tx_pending = Some \<lparr>buffer_id = 1, buffer_size = 60\<rparr>, sink = []\<rparr>"
        "\<lparr>buffer_id = 2, buffer_size = 100\<rparr>" 201 "\<lparr>buffer_id = 1, buffer_size = 60\<rparr>"]
      sendBuffer_rejections [of
        "\<lparr>mac = default_mac, tx_pending = None, sink = []\<rparr>"
        "\<lparr>buffer_id = 2, buffer_size = 1533\<rparr>" 0 "\<lparr>buffer_id = 1, buffer_size = 60\<rparr>"]
    by (simp add: m w)
qed

lemma interrupts_read_only:
  "interrupts qs m =
     (replicate (length qs) (MacBase_instance m),
      m\<lparr>history := history m @ replicate (length qs) InstanceRead\<rparr>)"
proof (induction qs arbitrary: m)
  case Nil
  show ?case by simp
next
  case (Cons q qs)
  show ?case
    by (simp add: Cons.IH interrupt_entry_def replicate_app_Cons_same)
qed

lemma bring_up_machine:
  "snd (bring_up this p u m) =
     m\<lparr>MacBase_instance := Some this, irq_enabled := True,
       history := history m @ [InstanceWrite this, InstanceWrite this, EnableInterrupts]\<rparr>"
  by (simp add: bring_up_def MacBase_ctor_def initialise_def startup_def write_instance_def)

lemma after_enable_reads:
  "after_enable ([InstanceWrite a, InstanceWrite b, EnableInterrupts] @ replicate n InstanceRead) =
     EnableInterrupts # replicate n InstanceRead"
  by (simp add: after_enable_def)

text \<open>
  C6. The constructor stores the address of the object it constructs in the static
  instance pointer, and the pointer still holds that address after \<^verbatim>\<open>initialise\<close>.
  When the driver is brought up from reset (constructed, initialised, started) and any
  interrupts follow, the pointer is written by the constructor and by \<^verbatim>\<open>initialise\<close>,
  both before the interrupts are enabled, and never after; every interrupt entry reads
  the pointer once, writes nothing, and reaches the constructed object.
\<close>

theorem instance_recorded_before_interrupts:
  assumes "bring_up this p u reset_machine = (obj, m)"
    and "interrupts qs m = (targets, m')"
  shows "MacBase_instance (snd (MacBase_ctor this u m0)) = Some this \<and>
         MacBase_instance
           (snd (initialise this p (fst (MacBase_ctor this u m0)) (snd (MacBase_ctor this u m0))))
           = Some this \<and>
         MacBase_instance m = Some this \<and>
         MacBase_instance m' = Some this \<and>
         targets = replicate (length qs) (Some this) \<and>
         history m' =
           [InstanceWrite this, InstanceWrite this, EnableInterrupts] @
           replicate (length qs) InstanceRead \<and>
         after_enable (history m') = EnableInterrupts # replicate (length qs) InstanceRead \<and>
         filter is_write (after_enable (history m')) = []"
proof -
  have m: "m = \<lparr>MacBase_instance = Some this, irq_enabled = True,
       history = [InstanceWrite this, InstanceWrite this, EnableInterrupts]\<rparr>"
    using assms(1) bring_up_machine [of this p u reset_machine]
    by (simp add: reset_machine_def)
  have t: "targets = replicate (length qs) (Some this)"
    and m': "m' = m\<lparr>history := history m @ replicate (length qs) InstanceRead\<rparr>"
    using assms(2) by (simp_all add: interrupts_read_only m)
  have h: "history m' =
      [InstanceWrite this, InstanceWrite this, EnableInterrupts] @
      replicate (length qs) InstanceRead"
    by (simp add: m' m)
  have f: "filter is_write (after_enable (history m')) = []"
    unfolding h after_enable_reads by simp
  have c: "MacBase_instance (snd (MacBase_ctor this u m0)) = Some this"
    by (simp add: MacBase_ctor_def write_instance_def)
  have i: "MacBase_instance
      (snd (initialise this p (fst (MacBase_ctor this u m0)) (snd (MacBase_ctor this u m0))))
      = Some this"
    by (simp add: initialise_def write_instance_def)
  from c i t h f show ?thesis
    by (simp add: m m' after_enable_def)
qed

theorem instance_recorded_before_interrupts_witness:
  "MacBase_instance (snd (bring_up 7 (Parameters_ctor zero_parameters) default_mac reset_machine))
     = Some 7 \<and>
   fst (interrupts [ReceiveIrq, ErrorIrq 5]
     (snd (bring_up 7 (Parameters_ctor zero_parameters) default_mac reset_machine)))
     = [Some 7, Some 7] \<and>
   history (snd (interrupts [ReceiveIrq, ErrorIrq 5]
     (snd (bring_up 7 (Parameters_ctor zero_parameters) default_mac reset_machine))))
     = [InstanceWrite 7, InstanceWrite 7, EnableInterrupts, InstanceRead, InstanceRead]"
  using instance_recorded_before_interrupts [of 7 "Parameters_ctor zero_parameters" default_mac
      "fst (bring_up 7 (Parameters_ctor zero_parameters) default_mac reset_machine)"
      "snd (bring_up 7 (Parameters_ctor zero_parameters) default_mac reset_machine)"
      "[ReceiveIrq, ErrorIrq 5]"
      "fst (interrupts [ReceiveIrq, ErrorIrq 5]
         (snd (bring_up 7 (Parameters_ctor zero_parameters) default_mac reset_machine)))"
      "snd (interrupts [ReceiveIrq, ErrorIrq 5]
         (snd (bring_up 7 (Parameters_ctor zero_parameters) default_mac reset_machine)))"]
  by (simp add: numeral_2_eq_2)

end
